theory Spec2Isabelle
  imports Complex_Main "HOL-Library.Sublist"
begin

section \<open>Conventions of the embedding\<close>

text \<open>
  The repository's \<^verbatim>\<open>src/src/errors.ts\<close> holds the three error classes (lines 1-20)
  followed by three revisions of the class \<^verbatim>\<open>ForecastLeverageSDK\<close>:
  lines 21-757 (the revision with \<^verbatim>\<open>validateRunway\<close>), lines 758-1695 (the revision
  with order types and retries) and lines 1696-2461.  A function that differs between
  revisions is embedded once per revision and carries the line of its declaration as a
  suffix (\<open>calculateLeverageParams_439\<close>, \<open>calculateLeverageParams_1279\<close>); a function
  whose text is the same in the revisions is embedded once.

  A JavaScript \<^verbatim>\<open>number\<close> is idealised as a \<^typ>\<open>real\<close>: rounding, \<^verbatim>\<open>NaN\<close> and
  the infinities of IEEE doubles are not represented, so a statement below is about the
  code only where the source divides by a non-zero number and takes the logarithm of a
  positive one; the hypotheses of the theorems say so where it matters.
  \<^verbatim>\<open>Math.ceil\<close> and \<^verbatim>\<open>Math.floor\<close> are \<open>\<lceil>_\<rceil>\<close> and \<open>\<lfloor>_\<rfloor>\<close>, \<^verbatim>\<open>Math.log\<close> is \<open>ln\<close>.
  Solidity's unsigned integers and \<^verbatim>\<open>bigint\<close> are \<^typ>\<open>nat\<close> and \<^typ>\<open>int\<close>.
\<close>

subsection \<open>Errors (lines 1-20)\<close>

text \<open>
  The three exported classes, and \<open>JsError\<close> for every other thrown value: a plain
  \<^verbatim>\<open>Error\<close> of the SDK (\<^verbatim>\<open>throw new Error(...)\<close>) or whatever a library call
  rejected with.  Each carries its \<^verbatim>\<open>message\<close>.
\<close>

datatype error =
    ValidationError string
  | PolymarketError string
  | ProtocolError string
  | JsError string

fun message :: "error \<Rightarrow> string" where
  "message (ValidationError m) = m"
| "message (PolymarketError m) = m"
| "message (ProtocolError m) = m"
| "message (JsError m) = m"

fun isValidationError :: "error \<Rightarrow> bool" where
  "isValidationError (ValidationError m) = True"
| "isValidationError e = False"

fun isPolymarketError :: "error \<Rightarrow> bool" where
  "isPolymarketError (PolymarketError m) = True"
| "isPolymarketError e = False"

fun isProtocolError :: "error \<Rightarrow> bool" where
  "isProtocolError (ProtocolError m) = True"
| "isProtocolError e = False"

text \<open>\<^verbatim>\<open>s.includes(pat)\<close> and \<^verbatim>\<open>s.startsWith(pat)\<close> of JavaScript strings.\<close>

fun str_includes :: "string \<Rightarrow> string \<Rightarrow> bool" where
  "str_includes [] pat = (pat = [])"
| "str_includes (c # cs) pat = (prefix pat (c # cs) \<or> str_includes cs pat)"

definition startsWith :: "string \<Rightarrow> string \<Rightarrow> bool" where
  "startsWith s pat = prefix pat s"

subsection \<open>The outside world: library calls and their answers\<close>

text \<open>
  Every call that leaves the SDK (the protocol, USDC and CTF contracts through ethers,
  the Polymarket CLOB client, the provider, \<^verbatim>\<open>setTimeout\<close>) is an \<open>event\<close>, and the
  sequence of calls made so far is the \<open>history\<close>.  The world is deterministic but
  arbitrary: the answer to a call is a function of the history up to and including that
  call.  An answer \<open>Inl m\<close> is a rejected promise whose error has the message \<open>m\<close>;
  the libraries know nothing of the SDK's error classes, so what they throw is never
  one of these.
\<close>

datatype order_type = FOK | GTC | GTD

datatype pm_order_type = PM_GTC | PM_GTD

datatype event =
    CreateOrDeriveApiKey
  | BalanceOf
  | VerifyMarket string
  | Quote nat real string bool
  | YesPositionId string
  | NoPositionId string
  | Approve
  | SetApprovalForAll
  | GetOrderBook string
  | CreateAndPostOrder string real real pm_order_type
  | WaitForOrderFill string nat
  | CancelOrder string
  | GetOrder string
  | SetTimeout real
  | OpenLeg int real string bool
  | TxWait
  | Legs int
  | GetFeeData
  | CloseLeg int

type_synonym history = "event list"

text \<open>The fields of \<^verbatim>\<open>quote(...)\<close>'s answer that the SDK reads (uint256 each).\<close>

record quote_result =
  quote_F :: nat
  quote_rS :: nat
  quote_rJ :: nat

text \<open>The fields of \<^verbatim>\<open>legs(legId)\<close>'s answer that the SDK reads.\<close>

record leg =
  leg_sets :: nat
  leg_F_e18 :: nat
  leg_rS_e18 :: nat
  leg_rJ_e18 :: nat
  leg_term :: nat

text \<open>
  A transaction receipt as \<^verbatim>\<open>openProtocolLeg\<close> reads it: its status, and \<^verbatim>\<open>topics[1]\<close>
  of the first log whose first topic is the \<^verbatim>\<open>LegOpened\<close> signature, if there is one.
\<close>

record receipt =
  receipt_status :: nat
  receipt_legOpened :: "int option"

text \<open>
  \<open>numToString\<close> and \<open>toFixed\<close> are JavaScript's rendering of a number inside a
  template literal and \<^verbatim>\<open>Number.prototype.toFixed\<close>; they only build messages.
  \<open>c_waitForOrderFill\<close> stands for the whole of \<^verbatim>\<open>waitForOrderFill\<close> (lines 1451-1481),
  which polls against the wall clock, catches every error itself and only ever returns
  whether the order filled in time.
\<close>

record env =
  numToString :: "real \<Rightarrow> string"
  toFixed :: "real \<Rightarrow> nat \<Rightarrow> string"
  c_now :: "history \<Rightarrow> real"
  c_createOrDeriveApiKey :: "history \<Rightarrow> string + unit"
  c_balanceOf :: "history \<Rightarrow> string + nat"
  c_verifyMarket :: "history \<Rightarrow> string + unit"
  c_quote :: "history \<Rightarrow> string + quote_result"
  c_yesPositionId :: "history \<Rightarrow> string + string"
  c_noPositionId :: "history \<Rightarrow> string + string"
  c_approve :: "history \<Rightarrow> string + unit"
  c_setApprovalForAll :: "history \<Rightarrow> string + unit"
  c_getOrderBook :: "history \<Rightarrow> string + real list"
  c_createAndPostOrder :: "history \<Rightarrow> string + string option"
  c_waitForOrderFill :: "history \<Rightarrow> bool"
  c_cancelOrder :: "history \<Rightarrow> string + unit"
  c_getOrder :: "history \<Rightarrow> string + real option"
  c_openLeg :: "history \<Rightarrow> string + unit"
  c_txWait :: "history \<Rightarrow> string + receipt option"
  c_legs :: "history \<Rightarrow> string + leg"
  c_getFeeData :: "history \<Rightarrow> string + nat option"
  c_closeLeg :: "history \<Rightarrow> string + unit"

definition call :: "event \<Rightarrow> (history \<Rightarrow> 'a) \<Rightarrow> history \<Rightarrow> 'a \<times> history" where
  "call ev answer h = (answer (h @ [ev]), h @ [ev])"

section \<open>Parameters (interfaces at lines 800-819)\<close>

record TargetPositionParams =
  marketConditionId :: string
  longYes :: bool
  currentPrice :: real
  targetPrice :: real
  timeframeSeconds :: real
  capitalUSDC :: real
  maxSlippageBps :: real
  orderType :: "order_type option"
  maxRetries :: "int option"
  retryDelayMs :: "real option"

record LeverageParams =
  lp_F :: real
  lp_R :: real
  lp_loops :: int
  lp_maxLeverage :: real
  lp_tokenId :: string

section \<open>Parameter Calculator\<close>

subsection \<open>The loop-count formulas\<close>

text \<open>
  Line 1301: \<^verbatim>\<open>Math.ceil(-Math.log(0.01) / Math.log(F))\<close>.
  Lines 458-461: \<^verbatim>\<open>Math.min(Math.ceil(Math.log(0.1) / Math.log(F)), 10)\<close>.
  Line 84 of \<^verbatim>\<open>test/simulation_validation.test.ts\<close>:
  \<^verbatim>\<open>Math.ceil(Math.log(0.1) / Math.log(F))\<close>, with the threshold as a parameter here.
\<close>

definition loops_1301 :: "real \<Rightarrow> int" where
  "loops_1301 F = \<lceil>- ln (1 / 100) / ln F\<rceil>"

definition loops_458 :: "real \<Rightarrow> int" where
  "loops_458 F = min \<lceil>ln (1 / 10) / ln F\<rceil> 10"

definition loops_new :: "real \<Rightarrow> real \<Rightarrow> int" where
  "loops_new eps F = \<lceil>ln eps / ln F\<rceil>"

text \<open>
  Lines 87-89 of the test: \<^verbatim>\<open>(1 - Math.pow(F, loops_new)) / (1 - F)\<close> and
  \<^verbatim>\<open>1 / (1 - F)\<close>.
\<close>

definition actualMultiplier :: "real \<Rightarrow> int \<Rightarrow> real" where
  "actualMultiplier F n = (1 - F powr (real_of_int n)) / (1 - F)"

definition maxLeverageOf :: "real \<Rightarrow> real" where
  "maxLeverageOf F = 1 / (1 - F)"

subsection \<open>validateInputs (lines 1201-1246; the same text at 339-384 and 2063-2108)\<close>

definition validateInputs :: "env \<Rightarrow> TargetPositionParams \<Rightarrow> error option" where
  "validateInputs env params =
    (if marketConditionId params = [] \<or> \<not> startsWith (marketConditionId params) ''0x'' then
       Some (ValidationError ''Invalid marketConditionId: must be a hex string starting with 0x'')
     else if currentPrice params \<le> 0 \<or> currentPrice params \<ge> 1 then
       Some (ValidationError (''Invalid currentPrice: '' @ numToString env (currentPrice params)
              @ '' (must be between 0 and 1)''))
     else if targetPrice params \<le> 0 \<or> targetPrice params \<ge> 1 then
       Some (ValidationError (''Invalid targetPrice: '' @ numToString env (targetPrice params)
              @ '' (must be between 0 and 1)''))
     else if longYes params \<and> targetPrice params \<le> currentPrice params then
       Some (ValidationError ''Invalid price direction: LONG YES requires targetPrice > currentPrice'')
     else if \<not> longYes params \<and> targetPrice params \<ge> currentPrice params then
       Some (ValidationError ''Invalid price direction: LONG NO requires targetPrice < currentPrice'')
     else if timeframeSeconds params \<le> 0 then
       Some (ValidationError (''Invalid timeframe: '' @ numToString env (timeframeSeconds params)
              @ '' (must be > 0)''))
     else if timeframeSeconds params < 60 then
       Some (ValidationError (''Invalid timeframe: '' @ numToString env (timeframeSeconds params)
              @ ''s (too short, min 60s)''))
     else if timeframeSeconds params > 365 * 24 * 3600 then
       Some (ValidationError (''Invalid timeframe: '' @ numToString env (timeframeSeconds params)
              @ ''s (too long, max 1 year)''))
     else if capitalUSDC params \<le> 0 then
       Some (ValidationError (''Invalid capital: '' @ numToString env (capitalUSDC params)
              @ '' (must be > 0)''))
     else if capitalUSDC params < 10 then
       Some (ValidationError (''Invalid capital: '' @ numToString env (capitalUSDC params)
              @ '' (minimum $10)''))
     else if maxSlippageBps params < 0 \<or> maxSlippageBps params > 5000 then
       Some (ValidationError (''Invalid slippage: '' @ numToString env (maxSlippageBps params)
              @ ''bps (must be 0-5000, i.e., 0-50%)''))
     else None)"

subsection \<open>validateRunway (lines 417-434; the other two revisions have no such function)\<close>

definition YEAR_SECONDS :: real where
  "YEAR_SECONDS = 365 * 24 * 3600"

definition runway :: "real \<Rightarrow> real \<Rightarrow> real" where
  "runway F R = ((1 - F) / (F * R)) * YEAR_SECONDS"

definition safeRunway :: "real \<Rightarrow> real \<Rightarrow> real" where
  "safeRunway F R = runway F R * (95 / 100)"

text \<open>
  The callers pass \<open>F \<ge> 0\<close> and \<open>R \<ge> 0\<close> (unsigned integers divided by \<open>10^18\<close>).
  With \<open>R > 0\<close> and \<open>F = 0\<close> the source divides by zero and IEEE arithmetic gives
  \<^verbatim>\<open>Infinity\<close>, which no term reaches: that branch is written out, since HOL's \<open>x / 0\<close>
  is \<open>0\<close>.
\<close>

definition validateRunway :: "env \<Rightarrow> real \<Rightarrow> real \<Rightarrow> real \<Rightarrow> error option" where
  "validateRunway env F R termSeconds =
    (if R = 0 then None
     else if F = 0 then None
     else if termSeconds \<ge> safeRunway F R then
       Some (ValidationError
         (''Term '' @ toFixed env (termSeconds / 3600) 1 @ ''h exceeds safe runway ''
          @ toFixed env (safeRunway F R / 3600) 1 @ ''h. ''
          @ ''Debt would exceed collateral value. ''
          @ ''Try shorter timeframe or wait for lower rates.''))
     else None)"

subsection \<open>calculateLeverageParams\<close>

text \<open>
  \<^verbatim>\<open>getYesTokenId\<close> / \<^verbatim>\<open>getNoTokenId\<close> (lines 1655-1664) only forward to the contract.
\<close>

definition getTokenId :: "env \<Rightarrow> TargetPositionParams \<Rightarrow> history \<Rightarrow> (string + string) \<times> history" where
  "getTokenId env params h =
    (if longYes params
     then call (YesPositionId (marketConditionId params)) (c_yesPositionId env) h
     else call (NoPositionId (marketConditionId params)) (c_noPositionId env) h)"

text \<open>Lines 1279-1315: validates \<open>F\<close>, has no runway check, no cap on the loops.\<close>

definition calculateLeverageParams_1279 ::
  "env \<Rightarrow> TargetPositionParams \<Rightarrow> history \<Rightarrow> (error + LeverageParams) \<times> history" where
  "calculateLeverageParams_1279 env params h =
    (case call (Quote 1 (timeframeSeconds params) (marketConditionId params) (longYes params))
               (c_quote env) h of
       (Inl m, h1) \<Rightarrow> (Inl (JsError m), h1)
     | (Inr q, h1) \<Rightarrow>
         (let F = real (quote_F q) / 10 ^ 18;
              R = (real (quote_rS q) + real (quote_rJ q)) / 10 ^ 18
          in if F \<le> 0 \<or> F \<ge> 1 then
               (Inl (ValidationError (''Invalid capital efficiency factor F='' @ numToString env F
                      @ ''. Must be between 0 and 1.'')), h1)
             else
               (let maxLeverage = 1 / (1 - F);
                    loops = loops_1301 F
                in case getTokenId env params h1 of
                     (Inl m, h2) \<Rightarrow> (Inl (JsError m), h2)
                   | (Inr tokenId, h2) \<Rightarrow>
                       (Inr \<lparr>lp_F = F, lp_R = R, lp_loops = loops,
                             lp_maxLeverage = maxLeverage, lp_tokenId = tokenId\<rparr>, h2))))"

text \<open>
  Lines 439-475: no check of \<open>F\<close>, the runway check, the 90% formula capped at 10.
  Outside \<open>0 < F < 1\<close> the source's \<^verbatim>\<open>Math.log\<close> and divisions leave the reals; the
  statements about this revision assume \<open>0 < F < 1\<close>.
\<close>

definition calculateLeverageParams_439 ::
  "env \<Rightarrow> TargetPositionParams \<Rightarrow> history \<Rightarrow> (error + LeverageParams) \<times> history" where
  "calculateLeverageParams_439 env params h =
    (case call (Quote 1 (timeframeSeconds params) (marketConditionId params) (longYes params))
               (c_quote env) h of
       (Inl m, h1) \<Rightarrow> (Inl (JsError m), h1)
     | (Inr q, h1) \<Rightarrow>
         (let F = real (quote_F q) / 10 ^ 18;
              R = (real (quote_rS q) + real (quote_rJ q)) / 10 ^ 18
          in case validateRunway env F R (timeframeSeconds params) of
               Some e \<Rightarrow> (Inl e, h1)
             | None \<Rightarrow>
               (let maxLeverage = 1 / (1 - F);
                    loops = loops_458 F
                in case getTokenId env params h1 of
                     (Inl m, h2) \<Rightarrow> (Inl (JsError m), h2)
                   | (Inr tokenId, h2) \<Rightarrow>
                       (Inr \<lparr>lp_F = F, lp_R = R, lp_loops = loops,
                             lp_maxLeverage = maxLeverage, lp_tokenId = tokenId\<rparr>, h2))))"

section \<open>Order Executor: buyTokensPolymarket (lines 1330-1445)\<close>

record buy_result =
  tokensReceived :: real
  slippage :: real

text \<open>
  The body of the \<^verbatim>\<open>try\<close> of one attempt (lines 1342-1424), in the four stages it
  goes through.  An empty or missing \<^verbatim>\<open>asks\<close> array is the answer \<open>Inr []\<close>;
  \<^verbatim>\<open>order.orderID\<close> missing or empty is falsy; \<^verbatim>\<open>filledOrder.size\<close> missing falls
  back to the size that was ordered.
\<close>

text \<open>Lines 1411-1424: the details of the fill.\<close>

definition fillDetails ::
  "env \<Rightarrow> real \<Rightarrow> real \<Rightarrow> real \<Rightarrow> string \<Rightarrow> history \<Rightarrow> (error + buy_result) \<times> history" where
  "fillDetails env usdcAmount bestAskPrice orderSizeCalc orderID h =
    (case call (GetOrder orderID) (c_getOrder env) h of
       (Inl m, h1) \<Rightarrow> (Inl (JsError m), h1)
     | (Inr filledSize, h1) \<Rightarrow>
         (let orderSizeFilled = (case filledSize of None \<Rightarrow> orderSizeCalc | Some z \<Rightarrow> z);
              tokens = orderSizeFilled * 10 ^ 6;
              actualPrice = (usdcAmount / 10 ^ 6) / orderSizeFilled;
              slip = (actualPrice - bestAskPrice) * orderSizeFilled
          in (Inr \<lparr>tokensReceived = real_of_int \<lfloor>tokens\<rfloor>, slippage = slip\<rparr>, h1)))"

text \<open>Lines 1395-1409: the wait for the fill, and the cancellation of an unfilled order.\<close>

definition awaitFill ::
  "env \<Rightarrow> real \<Rightarrow> real \<Rightarrow> real \<Rightarrow> order_type \<Rightarrow> string \<Rightarrow> history
    \<Rightarrow> (error + buy_result) \<times> history" where
  "awaitFill env usdcAmount bestAskPrice orderSizeCalc otype orderID h =
    (let fillTimeout = (if otype = FOK then 10000 else 30000)
     in case call (WaitForOrderFill orderID fillTimeout) (c_waitForOrderFill env) h of
          (False, h1) \<Rightarrow>
            (case call (CancelOrder orderID) (c_cancelOrder env) h1 of
               (cancelled, h2) \<Rightarrow>
                 (Inl (PolymarketError
                    (''Order '' @ orderID @ '' failed to fill within ''
                     @ numToString env (real fillTimeout) @ ''ms'')), h2))
        | (True, h1) \<Rightarrow> fillDetails env usdcAmount bestAskPrice orderSizeCalc orderID h1)"

text \<open>Lines 1353-1393: the size, the limit price and the order type, and the order.\<close>

definition submitOrder ::
  "env \<Rightarrow> string \<Rightarrow> real \<Rightarrow> real \<Rightarrow> order_type \<Rightarrow> real \<Rightarrow> history
    \<Rightarrow> (error + buy_result) \<times> history" where
  "submitOrder env tokenId usdcAmount slippageBps otype bestAskPrice h =
    (let orderSizeCalc = (usdcAmount / 10 ^ 6) / bestAskPrice;
         limitPrice = (if otype = FOK
                       then bestAskPrice * (1 + slippageBps / 10000)
                       else bestAskPrice * (1 + slippageBps / 20000));
         pmOrderType = (if otype = FOK \<or> otype = GTC then PM_GTC else PM_GTD)
     in case call (CreateAndPostOrder tokenId limitPrice orderSizeCalc pmOrderType)
                  (c_createAndPostOrder env) h of
          (Inl m, h1) \<Rightarrow> (Inl (JsError m), h1)
        | (Inr None, h1) \<Rightarrow>
            (Inl (PolymarketError ''Failed to create order: no order ID returned''), h1)
        | (Inr (Some orderID), h1) \<Rightarrow>
            (if orderID = [] then
               (Inl (PolymarketError ''Failed to create order: no order ID returned''), h1)
             else awaitFill env usdcAmount bestAskPrice orderSizeCalc otype orderID h1))"

text \<open>Lines 1342-1351: the best ask, and from there the order.\<close>

definition placeOrder ::
  "env \<Rightarrow> string \<Rightarrow> real \<Rightarrow> real \<Rightarrow> order_type \<Rightarrow> history \<Rightarrow> (error + buy_result) \<times> history" where
  "placeOrder env tokenId usdcAmount slippageBps otype h =
    (case call (GetOrderBook tokenId) (c_getOrderBook env) h of
       (Inl m, h1) \<Rightarrow> (Inl (JsError m), h1)
     | (Inr [], h1) \<Rightarrow>
         (Inl (PolymarketError (''No liquidity available for token '' @ tokenId)), h1)
     | (Inr (bestAskPrice # others), h1) \<Rightarrow>
         (if bestAskPrice \<le> 0 \<or> bestAskPrice \<ge> 1 then
            (Inl (PolymarketError (''Invalid orderbook price: '' @ numToString env bestAskPrice)), h1)
          else submitOrder env tokenId usdcAmount slippageBps otype bestAskPrice h1))"

text \<open>Line 1426: what the \<^verbatim>\<open>catch\<close> keeps as \<^verbatim>\<open>lastError\<close>.\<close>

definition asPolymarketError :: "error \<Rightarrow> error" where
  "asPolymarketError e =
     (if isPolymarketError e then e else PolymarketError (''Order failed: '' @ message e))"

text \<open>Line 1430: the test that ends the retries.\<close>

definition nonRetryable :: "error \<Rightarrow> bool" where
  "nonRetryable e = (str_includes (message e) ''No liquidity'' \<or> str_includes (message e) ''Invalid'')"

text \<open>Line 1436: \<^verbatim>\<open>retryDelayMs * Math.pow(1.5, attempt)\<close>.\<close>

definition backoffDelay :: "real \<Rightarrow> nat \<Rightarrow> real" where
  "backoffDelay delayMs attempt = delayMs * (3 / 2) ^ attempt"

text \<open>
  The \<^verbatim>\<open>for (let attempt = 0; attempt <= maxRetries; attempt++)\<close> loop from the attempt
  \<open>attempt\<close> on, with \<^verbatim>\<open>lastError\<close> as the loop carries it, and the \<^verbatim>\<open>throw\<close> of
  line 1444 after it.
\<close>

function retryLoop ::
  "env \<Rightarrow> string \<Rightarrow> real \<Rightarrow> real \<Rightarrow> order_type \<Rightarrow> int \<Rightarrow> real \<Rightarrow> nat \<Rightarrow> error option \<Rightarrow> history
    \<Rightarrow> (error + buy_result) \<times> history" where
  "retryLoop env tokenId usdcAmount slippageBps otype retries delayMs attempt lastError h =
    (if int attempt \<le> retries then
       (case placeOrder env tokenId usdcAmount slippageBps otype h of
          (Inr r, h1) \<Rightarrow> (Inr r, h1)
        | (Inl e, h1) \<Rightarrow>
            (if nonRetryable (asPolymarketError e) then (Inl (asPolymarketError e), h1)
             else if int attempt < retries then
               (case call (SetTimeout (backoffDelay delayMs attempt)) (\<lambda>h'. ()) h1 of
                  (u, h2) \<Rightarrow> retryLoop env tokenId usdcAmount slippageBps otype retries delayMs
                               (Suc attempt) (Some (asPolymarketError e)) h2)
             else retryLoop env tokenId usdcAmount slippageBps otype retries delayMs
                    (Suc attempt) (Some (asPolymarketError e)) h1))
     else
       (case lastError of
          Some e \<Rightarrow> (Inl e, h)
        | None \<Rightarrow> (Inl (PolymarketError (''Order failed after ''
                          @ numToString env (real_of_int (retries + 1)) @ '' attempts'')), h)))"
  by pat_completeness auto
termination
  by (relation "measure (\<lambda>(env, tokenId, usdcAmount, slippageBps, otype, retries, delayMs, attempt, lastError, h).
        nat (retries + 1 - int attempt))") auto

declare retryLoop.simps [simp del]

definition buyTokensPolymarket ::
  "env \<Rightarrow> string \<Rightarrow> real \<Rightarrow> real \<Rightarrow> order_type \<Rightarrow> int \<Rightarrow> real \<Rightarrow> history
    \<Rightarrow> (error + buy_result) \<times> history" where
  "buyTokensPolymarket env tokenId usdcAmount slippageBps otype retries delayMs h =
     retryLoop env tokenId usdcAmount slippageBps otype retries delayMs 0 None h"

section \<open>Leg Opener: openProtocolLeg (lines 1486-1536)\<close>

text \<open>Lines 1523-1534: the \<^verbatim>\<open>catch\<close>, which classifies what was thrown inside the \<^verbatim>\<open>try\<close>.\<close>

definition classifyOpenError :: "error \<Rightarrow> error" where
  "classifyOpenError e =
     (if isProtocolError e then e
      else if str_includes (message e) ''insufficient'' then ProtocolError ''Insufficient protocol liquidity''
      else if str_includes (message e) ''paused'' then ProtocolError ''Protocol is paused''
      else ProtocolError (''Failed to open position: '' @ message e))"

definition openProtocolLeg ::
  "env \<Rightarrow> real \<Rightarrow> real \<Rightarrow> string \<Rightarrow> bool \<Rightarrow> history \<Rightarrow> (error + int) \<times> history" where
  "openProtocolLeg env tokenAmount termSeconds conditionId isLongYes h =
    (let nsets = \<lfloor>tokenAmount / 10 ^ 6\<rfloor>
     in if nsets = 0 then
          (Inl (ProtocolError (''Insufficient tokens: '' @ numToString env tokenAmount
                 @ '' (need at least 1 set)'')), h)
        else
          (case call (OpenLeg nsets termSeconds conditionId isLongYes) (c_openLeg env) h of
             (Inl m, h1) \<Rightarrow> (Inl (classifyOpenError (JsError m)), h1)
           | (Inr u, h1) \<Rightarrow>
               (case call TxWait (c_txWait env) h1 of
                  (Inl m, h2) \<Rightarrow> (Inl (classifyOpenError (JsError m)), h2)
                | (Inr None, h2) \<Rightarrow> (Inl (classifyOpenError (ProtocolError ''Transaction failed'')), h2)
                | (Inr (Some rc), h2) \<Rightarrow>
                    (if receipt_status rc = 1 then
                       (case receipt_legOpened rc of
                          None \<Rightarrow> (Inl (classifyOpenError
                                     (ProtocolError ''LegOpened event not found in transaction'')), h2)
                        | Some legId \<Rightarrow> (Inr legId, h2))
                     else (Inl (classifyOpenError (ProtocolError ''Transaction failed'')), h2)))))"

section \<open>Loop Orchestrator: the loop of openTargetPosition (lines 1130-1176)\<close>

record loop_state =
  st_legIds :: "int list"
  st_remainingUSDC :: real
  st_totalTokensBought :: real
  st_totalSlippage :: real

text \<open>
  How one pass through the body of the \<^verbatim>\<open>for\<close> loop ends: the \<^verbatim>\<open>catch\<close> rethrows
  (\<open>Throw\<close>), a \<^verbatim>\<open>break\<close> leaves the loop (\<open>Break\<close>), or the loop goes on (\<open>Next\<close>).
\<close>

datatype iteration_end = Throw error | Break loop_state | Next loop_state

text \<open>Lines 1168-1175: the \<^verbatim>\<open>catch\<close> of the loop body, with the state as it is then.\<close>

definition onIterationError :: "loop_state \<Rightarrow> error \<Rightarrow> iteration_end" where
  "onIterationError st e = (if length (st_legIds st) > 0 then Break st else Throw e)"

text \<open>Lines 1140-1175: the body of the loop.\<close>

definition iteration ::
  "env \<Rightarrow> TargetPositionParams \<Rightarrow> LeverageParams \<Rightarrow> order_type \<Rightarrow> int \<Rightarrow> real \<Rightarrow> loop_state \<Rightarrow> history
    \<Rightarrow> iteration_end \<times> history" where
  "iteration env params lp otype retries delayMs st h =
    (case buyTokensPolymarket env (lp_tokenId lp) (st_remainingUSDC st) (maxSlippageBps params)
            otype retries delayMs h of
       (Inl e, h1) \<Rightarrow> (onIterationError st e, h1)
     | (Inr buyResult, h1) \<Rightarrow>
         (let st1 = st\<lparr>st_totalTokensBought := st_totalTokensBought st + tokensReceived buyResult,
                       st_totalSlippage := st_totalSlippage st + slippage buyResult\<rparr>
          in case openProtocolLeg env (tokensReceived buyResult) (timeframeSeconds params)
                    (marketConditionId params) (longYes params) h1 of
               (Inl e, h2) \<Rightarrow> (onIterationError st1 e, h2)
             | (Inr legId, h2) \<Rightarrow>
                 (let st2 = st1\<lparr>st_legIds := st_legIds st1 @ [legId]\<rparr>
                  in case call BalanceOf (c_balanceOf env) h2 of
                       (Inl m, h3) \<Rightarrow> (onIterationError st2 (JsError m), h3)
                     | (Inr usdcBalance, h3) \<Rightarrow>
                         (let st3 = st2\<lparr>st_remainingUSDC := real usdcBalance\<rparr>
                          in if st_remainingUSDC st3 < 10 ^ 6 then (Break st3, h3)
                             else (Next st3, h3)))))"

text \<open>Lines 1139-1176: \<^verbatim>\<open>for (let i = 0; i < leverageParams.loops; i++)\<close> from \<open>i\<close> on.\<close>

function leverageLoop ::
  "env \<Rightarrow> TargetPositionParams \<Rightarrow> LeverageParams \<Rightarrow> order_type \<Rightarrow> int \<Rightarrow> real \<Rightarrow> nat \<Rightarrow> loop_state
    \<Rightarrow> history \<Rightarrow> (error + loop_state) \<times> history" where
  "leverageLoop env params lp otype retries delayMs i st h =
    (if int i < lp_loops lp then
       (case iteration env params lp otype retries delayMs st h of
          (Throw e, h1) \<Rightarrow> (Inl e, h1)
        | (Break st1, h1) \<Rightarrow> (Inr st1, h1)
        | (Next st1, h1) \<Rightarrow> leverageLoop env params lp otype retries delayMs (Suc i) st1 h1)
     else (Inr st, h))"
  by pat_completeness auto
termination
  by (relation "measure (\<lambda>(env, params, lp, otype, retries, delayMs, i, st, h).
        nat (lp_loops lp - int i))") auto

declare leverageLoop.simps [simp del]

section \<open>Metrics Calculator: calculatePositionMetrics (lines 1562-1621)\<close>

record fee_breakdown =
  protocolSenior :: real
  protocolJunior :: real
  polymarketSlippage :: real
  gas :: real
  total :: real

record pnl_breakdown =
  atTarget :: real
  breakeven :: real
  maxProfit :: real
  maxLoss :: real

record LeveragePosition =
  legIds :: "int list"
  totalExposure :: real
  effectiveLeverage :: real
  capitalDeployed :: real
  fees :: fee_breakdown
  pnl :: pnl_breakdown
  autoCloseTime :: real
  pos_F :: real
  pos_R :: real

text \<open>
  Lines 1570-1572: \<^verbatim>\<open>Promise.all(legIds.map(id => this.protocolContract.legs(id)))\<close>.
  Every read is issued, in the order of the identifiers; the first rejected one (in that
  order) is what \<^verbatim>\<open>Promise.all\<close> rejects with.
\<close>

fun readLegs :: "env \<Rightarrow> int list \<Rightarrow> history \<Rightarrow> (string + leg list) \<times> history" where
  "readLegs env [] h = (Inr [], h)"
| "readLegs env (legId # rest) h =
    (case call (Legs legId) (c_legs env) h of
       (r, h1) \<Rightarrow>
         (case readLegs env rest h1 of
            (rs, h2) \<Rightarrow>
              ((case r of
                  Inl m \<Rightarrow> Inl m
                | Inr l \<Rightarrow> (case rs of Inl m \<Rightarrow> Inl m | Inr ls \<Rightarrow> Inr (l # ls))), h2)))"

text \<open>\<^verbatim>\<open>legs.reduce((sum, leg) => sum + Number(leg.f), 0)\<close>.\<close>

definition sumLegs :: "(leg \<Rightarrow> nat) \<Rightarrow> leg list \<Rightarrow> real" where
  "sumLegs f ls = sum_list (map (\<lambda>l. real (f l)) ls)"

text \<open>
  With an empty list of legs the four averages are \<^verbatim>\<open>0 / 0\<close>, that is \<^verbatim>\<open>NaN\<close>, in the
  source, and with it both interests and the total of the fees; the reals have no such
  value, so what is proved of these fields assumes a leg.  The text at lines 637-694
  computes the gas cost as \<^verbatim>\<open>Number(gasUsed * Number(gasPrice)) / 1e18\<close>, the same real
  number, and is otherwise the same.  The parameter \<^verbatim>\<open>leverageParams\<close> is not read.
\<close>

definition calculatePositionMetrics ::
  "env \<Rightarrow> int list \<Rightarrow> TargetPositionParams \<Rightarrow> real \<Rightarrow> real \<Rightarrow> LeverageParams \<Rightarrow> history
    \<Rightarrow> (error + LeveragePosition) \<times> history" where
  "calculatePositionMetrics env ids params totalTokens totalSlip lp h =
    (case readLegs env ids h of
       (Inl m, h1) \<Rightarrow> (Inl (JsError m), h1)
     | (Inr ls, h1) \<Rightarrow>
         (case call GetFeeData (c_getFeeData env) h1 of
            (Inl m, h2) \<Rightarrow> (Inl (JsError m), h2)
          | (Inr feeGasPrice, h2) \<Rightarrow>
              (let totalSets = sumLegs leg_sets ls;
                   avgF = sumLegs leg_F_e18 ls / real (length ls) / 10 ^ 18;
                   avgRS = sumLegs leg_rS_e18 ls / real (length ls) / 10 ^ 18;
                   avgRJ = sumLegs leg_rJ_e18 ls / real (length ls) / 10 ^ 18;
                   avgTerm = sumLegs leg_term ls / real (length ls);
                   seniorInterest = totalSets * avgF * avgRS * (avgTerm / (365 * 24 * 3600));
                   juniorInterest = totalSets * avgF * avgRJ * (avgTerm / (365 * 24 * 3600));
                   gasUsed = length ids * 500000;
                   gasPrice = (case feeGasPrice of None \<Rightarrow> 0 | Some g \<Rightarrow> g);
                   gasCostWei = gasPrice * gasUsed;
                   gasCostUSDC = real gasCostWei / 10 ^ 18 * 1;
                   leverage = totalTokens / (capitalUSDC params * 10 ^ 6);
                   priceMove = targetPrice params - currentPrice params;
                   pnlAtTarget = (priceMove * totalTokens / 10 ^ 6) - totalSlip - seniorInterest
                                 - juniorInterest - gasCostUSDC;
                   totalFees = totalSlip + seniorInterest + juniorInterest + gasCostUSDC;
                   breakevenPrice = currentPrice params + (totalFees / (totalTokens / 10 ^ 6))
               in (Inr \<lparr>legIds = ids,
                         totalExposure = totalTokens / 10 ^ 6,
                         effectiveLeverage = leverage,
                         capitalDeployed = capitalUSDC params,
                         fees = \<lparr>protocolSenior = seniorInterest,
                                  protocolJunior = juniorInterest,
                                  polymarketSlippage = totalSlip,
                                  gas = gasCostUSDC,
                                  total = totalFees\<rparr>,
                         pnl = \<lparr>atTarget = pnlAtTarget,
                                 breakeven = breakevenPrice,
                                 maxProfit = ((1 - currentPrice params) * totalTokens / 10 ^ 6) - totalFees,
                                 maxLoss = - capitalUSDC params\<rparr>,
                         autoCloseTime = c_now env h2 + (avgTerm * 1000),
                         pos_F = avgF,
                         pos_R = avgRS + avgRJ\<rparr>, h2))))"

section \<open>The entry points\<close>

text \<open>
  The SDK object's mutable field \<^verbatim>\<open>polymarketInitialized\<close> travels with the history.
\<close>

type_synonym sdk_state = "bool \<times> history"

text \<open>Lines 976-999.\<close>

definition setupPolymarket :: "env \<Rightarrow> sdk_state \<Rightarrow> (error + unit) \<times> sdk_state" where
  "setupPolymarket env s =
    (case s of
       (True, h) \<Rightarrow> (Inr (), (True, h))
     | (False, h) \<Rightarrow>
         (case call CreateOrDeriveApiKey (c_createOrDeriveApiKey env) h of
            (Inl m, h1) \<Rightarrow> (Inl (JsError m), (False, h1))
          | (Inr u, h1) \<Rightarrow> (Inr (), (True, h1))))"

text \<open>Lines 1251-1260.\<close>

definition checkSufficientBalance :: "env \<Rightarrow> real \<Rightarrow> history \<Rightarrow> (error + unit) \<times> history" where
  "checkSufficientBalance env requiredUSDC h =
    (case call BalanceOf (c_balanceOf env) h of
       (Inl m, h1) \<Rightarrow> (Inl (JsError m), h1)
     | (Inr balance, h1) \<Rightarrow>
         (let balanceUSDC = real balance / 10 ^ 6
          in if balanceUSDC < requiredUSDC then
               (Inl (ValidationError (''Insufficient USDC balance: have $'' @ toFixed env balanceUSDC 2
                      @ '', need $'' @ toFixed env requiredUSDC 2)), h1)
             else (Inr (), h1)))"

text \<open>Lines 1265-1271.\<close>

definition verifyMarket :: "env \<Rightarrow> string \<Rightarrow> history \<Rightarrow> (error + unit) \<times> history" where
  "verifyMarket env conditionId h =
    (case call (VerifyMarket conditionId) (c_verifyMarket env) h of
       (Inl m, h1) \<Rightarrow> (Inl (ValidationError (''Invalid market: '' @ conditionId @ '' - '' @ m)), h1)
     | (Inr u, h1) \<Rightarrow> (Inr (), h1))"

text \<open>Lines 1541-1557; each call stands for the transaction and its \<^verbatim>\<open>wait()\<close>.\<close>

definition setupApprovals :: "env \<Rightarrow> history \<Rightarrow> (error + unit) \<times> history" where
  "setupApprovals env h =
    (case call Approve (c_approve env) h of
       (Inl m, h1) \<Rightarrow> (Inl (JsError m), h1)
     | (Inr u, h1) \<Rightarrow>
         (case call SetApprovalForAll (c_setApprovalForAll env) h1 of
            (Inl m, h2) \<Rightarrow> (Inl (JsError m), h2)
          | (Inr v, h2) \<Rightarrow> (Inr (), h2)))"

subsection \<open>openTargetPosition (lines 1109-1196)\<close>

definition initialLoopState :: "TargetPositionParams \<Rightarrow> loop_state" where
  "initialLoopState params =
     \<lparr>st_legIds = [], st_remainingUSDC = capitalUSDC params * 10 ^ 6,
      st_totalTokensBought = 0, st_totalSlippage = 0\<rparr>"

text \<open>
  Lines 1135-1137: \<^verbatim>\<open>params.orderType || 'FOK'\<close>,
  \<^verbatim>\<open>params.maxRetries !== undefined ? params.maxRetries : 3\<close> and
  \<^verbatim>\<open>params.retryDelayMs || 2000\<close> (a delay of zero is falsy).
\<close>

definition orderTypeOf :: "TargetPositionParams \<Rightarrow> order_type" where
  "orderTypeOf params = (case orderType params of None \<Rightarrow> FOK | Some t \<Rightarrow> t)"

definition maxRetriesOf :: "TargetPositionParams \<Rightarrow> int" where
  "maxRetriesOf params = (case maxRetries params of None \<Rightarrow> 3 | Some n \<Rightarrow> n)"

definition retryDelayMsOf :: "TargetPositionParams \<Rightarrow> real" where
  "retryDelayMsOf params =
     (case retryDelayMs params of None \<Rightarrow> 2000 | Some d \<Rightarrow> if d = 0 then 2000 else d)"

text \<open>
  Lines 1129-1189, steps 3 and 4: the loop, the test for an empty list of legs, the
  metrics.
\<close>

definition executeLoop ::
  "env \<Rightarrow> TargetPositionParams \<Rightarrow> LeverageParams \<Rightarrow> history \<Rightarrow> (error + LeveragePosition) \<times> history" where
  "executeLoop env params lp h =
    (case leverageLoop env params lp (orderTypeOf params) (maxRetriesOf params)
            (retryDelayMsOf params) 0 (initialLoopState params) h of
       (Inl e, h1) \<Rightarrow> (Inl e, h1)
     | (Inr st, h1) \<Rightarrow>
         (if length (st_legIds st) = 0 then
            (Inl (ProtocolError ''Failed to open any position legs''), h1)
          else calculatePositionMetrics env (st_legIds st) params (st_totalTokensBought st)
                 (st_totalSlippage st) lp h1))"

text \<open>Lines 1190-1195: the outer \<^verbatim>\<open>catch\<close>.\<close>

definition rethrowOpen :: "error \<Rightarrow> error" where
  "rethrowOpen e =
     (if isValidationError e \<or> isPolymarketError e \<or> isProtocolError e then e
      else ProtocolError (''Position opening failed: '' @ message e))"

definition catchOpen :: "(error + 'a) \<times> history \<Rightarrow> (error + 'a) \<times> history" where
  "catchOpen r = (case r of (Inl e, h) \<Rightarrow> (Inl (rethrowOpen e), h) | (Inr v, h) \<Rightarrow> (Inr v, h))"

text \<open>Lines 1116-1189: the body of the outer \<^verbatim>\<open>try\<close>.\<close>

definition openBody_1116 ::
  "env \<Rightarrow> TargetPositionParams \<Rightarrow> history \<Rightarrow> (error + LeveragePosition) \<times> history" where
  "openBody_1116 env params h =
    (case checkSufficientBalance env (capitalUSDC params) h of
       (Inl e, h1) \<Rightarrow> (Inl e, h1)
     | (Inr u, h1) \<Rightarrow>
         (case verifyMarket env (marketConditionId params) h1 of
            (Inl e, h2) \<Rightarrow> (Inl e, h2)
          | (Inr v, h2) \<Rightarrow>
              (case calculateLeverageParams_1279 env params h2 of
                 (Inl e, h3) \<Rightarrow> (Inl e, h3)
               | (Inr lp, h3) \<Rightarrow>
                   (case setupApprovals env h3 of
                      (Inl e, h4) \<Rightarrow> (Inl e, h4)
                    | (Inr w, h4) \<Rightarrow> executeLoop env params lp h4))))"

definition openTargetPosition_1109 ::
  "env \<Rightarrow> TargetPositionParams \<Rightarrow> sdk_state \<Rightarrow> (error + LeveragePosition) \<times> sdk_state" where
  "openTargetPosition_1109 env params s =
    (case validateInputs env params of
       Some e \<Rightarrow> (Inl e, s)
     | None \<Rightarrow>
         (case setupPolymarket env s of
            (Inl e, s1) \<Rightarrow> (Inl e, s1)
          | (Inr u, (initialized, h1)) \<Rightarrow>
              (case catchOpen (openBody_1116 env params h1) of
                 (r, h2) \<Rightarrow> (r, (initialized, h2)))))"

subsection \<open>simulatePosition\<close>

text \<open>
  One pass through the body of the simulated loop, on the pair
  \<open>(totalTokens, remainingUSDC)\<close>.  Lines 1046-1052 carry \<^verbatim>\<open>tokensThisLoop * F\<close>
  forward (so do lines 1915-1921); lines 205-210 carry
  \<^verbatim>\<open>tokensThisLoop * F * params.currentPrice\<close>, as the loop of \<^verbatim>\<open>testLoopLeverage\<close>
  does (lines 15-20 of \<^verbatim>\<open>test/simulation_validation.test.ts\<close>).
\<close>

fun simulateStep_1046 :: "real \<Rightarrow> real \<Rightarrow> real \<times> real \<Rightarrow> real \<times> real" where
  "simulateStep_1046 F price (totalTokens, remainingUSDC) =
     (let tokensThisLoop = remainingUSDC / price
      in (totalTokens + tokensThisLoop, tokensThisLoop * F))"

fun simulateStep_205 :: "real \<Rightarrow> real \<Rightarrow> real \<times> real \<Rightarrow> real \<times> real" where
  "simulateStep_205 F price (totalTokens, remainingUSDC) =
     (let tokensThisLoop = remainingUSDC / price
      in (totalTokens + tokensThisLoop, tokensThisLoop * F * price))"

text \<open>
  \<^verbatim>\<open>for (let i = 0; i < loops; i++) { ...; if (remainingUSDC < 1) break; }\<close> from \<open>i\<close>
  on: lines 1044-1055, and lines 203-213.
\<close>

function simulateLoop_1044 :: "real \<Rightarrow> real \<Rightarrow> int \<Rightarrow> nat \<Rightarrow> real \<times> real \<Rightarrow> real \<times> real" where
  "simulateLoop_1044 F price loops i acc =
    (if int i < loops then
       (let acc1 = simulateStep_1046 F price acc
        in if snd acc1 < 1 then acc1 else simulateLoop_1044 F price loops (Suc i) acc1)
     else acc)"
  by pat_completeness auto
termination
  by (relation "measure (\<lambda>(F, price, loops, i, acc). nat (loops - int i))") auto

declare simulateLoop_1044.simps [simp del]

function simulateLoop_203 :: "real \<Rightarrow> real \<Rightarrow> int \<Rightarrow> nat \<Rightarrow> real \<times> real \<Rightarrow> real \<times> real" where
  "simulateLoop_203 F price loops i acc =
    (if int i < loops then
       (let acc1 = simulateStep_205 F price acc
        in if snd acc1 < 1 then acc1 else simulateLoop_203 F price loops (Suc i) acc1)
     else acc)"
  by pat_completeness auto
termination
  by (relation "measure (\<lambda>(F, price, loops, i, acc). nat (loops - int i))") auto

declare simulateLoop_203.simps [simp del]

text \<open>
  \<^verbatim>\<open>Array.from({ length: loops }, (_, i) => BigInt(i))\<close> (lines 1058 and 216): the
  length of an array-like is clamped at zero from below.
\<close>

definition dummyLegIds :: "int \<Rightarrow> int list" where
  "dummyLegIds loops = map int [0..<nat loops]"

text \<open>Lines 1074-1079 and 232-237: the \<^verbatim>\<open>catch\<close> of the simulation.\<close>

definition rethrowSimulation :: "error \<Rightarrow> error" where
  "rethrowSimulation e =
     (if isValidationError e then e else JsError (''Simulation failed: '' @ message e))"

definition catchSimulation :: "(error + 'a) \<times> history \<Rightarrow> (error + 'a) \<times> history" where
  "catchSimulation r =
     (case r of (Inl e, h) \<Rightarrow> (Inl (rethrowSimulation e), h) | (Inr v, h) \<Rightarrow> (Inr v, h))"

text \<open>Lines 1036-1073: the body of the \<^verbatim>\<open>try\<close> of the revision with retries.\<close>

definition simulateBody_1036 ::
  "env \<Rightarrow> TargetPositionParams \<Rightarrow> history \<Rightarrow> (error + LeveragePosition) \<times> history" where
  "simulateBody_1036 env params h =
    (case calculateLeverageParams_1279 env params h of
       (Inl e, h1) \<Rightarrow> (Inl e, h1)
     | (Inr lp, h1) \<Rightarrow>
         (let totalTokens = fst (simulateLoop_1044 (lp_F lp) (currentPrice params) (lp_loops lp) 0
                                   (0, capitalUSDC params))
          in calculatePositionMetrics env (dummyLegIds (lp_loops lp)) params
               (totalTokens * 10 ^ 6) 0 lp h1))"

text \<open>Lines 1026-1080.\<close>

definition simulatePosition_1026 ::
  "env \<Rightarrow> TargetPositionParams \<Rightarrow> sdk_state \<Rightarrow> (error + LeveragePosition) \<times> sdk_state" where
  "simulatePosition_1026 env params s =
    (case validateInputs env params of
       Some e \<Rightarrow> (Inl e, s)
     | None \<Rightarrow>
         (case setupPolymarket env s of
            (Inl e, s1) \<Rightarrow> (Inl e, s1)
          | (Inr u, (initialized, h1)) \<Rightarrow>
              (case catchSimulation (simulateBody_1036 env params h1) of
                 (r, h2) \<Rightarrow> (r, (initialized, h2)))))"

text \<open>Lines 188-238: the revision with the runway check; it has no Polymarket set-up.\<close>

definition simulateBody_195 ::
  "env \<Rightarrow> TargetPositionParams \<Rightarrow> history \<Rightarrow> (error + LeveragePosition) \<times> history" where
  "simulateBody_195 env params h =
    (case calculateLeverageParams_439 env params h of
       (Inl e, h1) \<Rightarrow> (Inl e, h1)
     | (Inr lp, h1) \<Rightarrow>
         (let totalTokens = fst (simulateLoop_203 (lp_F lp) (currentPrice params) (lp_loops lp) 0
                                   (0, capitalUSDC params))
          in calculatePositionMetrics env (dummyLegIds (lp_loops lp)) params
               (totalTokens * 10 ^ 6) 0 lp h1))"

definition simulatePosition_188 ::
  "env \<Rightarrow> TargetPositionParams \<Rightarrow> history \<Rightarrow> (error + LeveragePosition) \<times> history" where
  "simulatePosition_188 env params h =
    (case validateInputs env params of
       Some e \<Rightarrow> (Inl e, h)
     | None \<Rightarrow> catchSimulation (simulateBody_195 env params h))"

section \<open>Position Closer: closePosition (lines 1637-1650; the same text at 699-712 and 2403-2416)\<close>

text \<open>
  \<^verbatim>\<open>for (const legId of legIds)\<close> with the accumulator \<^verbatim>\<open>totalUSDC\<close>.  The function
  has no \<^verbatim>\<open>try\<close>: what a call rejects with leaves the function as it is.
\<close>

fun closeLoop :: "env \<Rightarrow> int list \<Rightarrow> real \<Rightarrow> history \<Rightarrow> (error + real) \<times> history" where
  "closeLoop env [] totalUSDC h = (Inr totalUSDC, h)"
| "closeLoop env (legId # rest) totalUSDC h =
    (case call BalanceOf (c_balanceOf env) h of
       (Inl m, h1) \<Rightarrow> (Inl (JsError m), h1)
     | (Inr balanceBefore, h1) \<Rightarrow>
         (case call (CloseLeg legId) (c_closeLeg env) h1 of
            (Inl m, h2) \<Rightarrow> (Inl (JsError m), h2)
          | (Inr u, h2) \<Rightarrow>
              (case call BalanceOf (c_balanceOf env) h2 of
                 (Inl m, h3) \<Rightarrow> (Inl (JsError m), h3)
               | (Inr balanceAfter, h3) \<Rightarrow>
                   closeLoop env rest
                     (totalUSDC + real_of_int (int balanceAfter - int balanceBefore)) h3)))"

definition closePosition :: "env \<Rightarrow> int list \<Rightarrow> history \<Rightarrow> (error + real) \<times> history" where
  "closePosition env ids h =
    (case closeLoop env ids 0 h of
       (Inl e, h1) \<Rightarrow> (Inl e, h1)
     | (Inr totalUSDC, h1) \<Rightarrow> (Inr (totalUSDC / 10 ^ 6), h1))"

section \<open>Observing a run\<close>







section \<open>Concrete worlds and parameters\<close>

text \<open>
  A world in which nothing is available, from which the scenarios below are built, and
  the parameters of the specification's scenario A (capital 1000 at a price of 0.40).
\<close>

definition quietWorld :: env where
  "quietWorld =
     \<lparr>numToString = (\<lambda>x. ''#''),
      toFixed = (\<lambda>x d. ''#''),
      c_now = (\<lambda>h. 0),
      c_createOrDeriveApiKey = (\<lambda>h. Inr ()),
      c_balanceOf = (\<lambda>h. Inr 0),
      c_verifyMarket = (\<lambda>h. Inr ()),
      c_quote = (\<lambda>h. Inl ''unavailable''),
      c_yesPositionId = (\<lambda>h. Inr ''yes-token''),
      c_noPositionId = (\<lambda>h. Inr ''no-token''),
      c_approve = (\<lambda>h. Inr ()),
      c_setApprovalForAll = (\<lambda>h. Inr ()),
      c_getOrderBook = (\<lambda>h. Inr []),
      c_createAndPostOrder = (\<lambda>h. Inr None),
      c_waitForOrderFill = (\<lambda>h. False),
      c_cancelOrder = (\<lambda>h. Inr ()),
      c_getOrder = (\<lambda>h. Inr None),
      c_openLeg = (\<lambda>h. Inl ''unavailable''),
      c_txWait = (\<lambda>h. Inr None),
      c_legs = (\<lambda>h. Inl ''unavailable''),
      c_getFeeData = (\<lambda>h. Inr None),
      c_closeLeg = (\<lambda>h. Inl ''unavailable'')\<rparr>"

definition paramsA :: TargetPositionParams where
  "paramsA =
     \<lparr>marketConditionId = ''0x7cb031'', longYes = True, currentPrice = 4 / 10,
      targetPrice = 44 / 100, timeframeSeconds = 3600, capitalUSDC = 1000,
      maxSlippageBps = 100, orderType = None, maxRetries = None, retryDelayMs = None\<rparr>"

text \<open>
  The protocol quotes \<open>F = 0.9\<close> and rates of 6% and 4%; every leg read back has 100
  sets at these rates for an hour; gas costs 30 gwei.
\<close>

definition worldA :: env where
  "worldA = quietWorld
     \<lparr>c_quote := (\<lambda>h. Inr \<lparr>quote_F = 9 * 10 ^ 17, quote_rS = 6 * 10 ^ 16, quote_rJ = 4 * 10 ^ 16\<rparr>),
      c_legs := (\<lambda>h. Inr \<lparr>leg_sets = 100, leg_F_e18 = 9 * 10 ^ 17, leg_rS_e18 = 6 * 10 ^ 16,
                          leg_rJ_e18 = 4 * 10 ^ 16, leg_term = 3600\<rparr>),
      c_getFeeData := (\<lambda>h. Inr (Some (30 * 10 ^ 9)))\<rparr>"

text \<open>
  A term of 20,000,000 seconds against a quote of \<open>F = 0.9\<close> at rates of 12% and 8%:
  the safe runway is \<open>0.95 \<times> (0.1 / 0.18)\<close> of a year, 16,644,000 seconds.
\<close>

definition paramsB :: TargetPositionParams where
  "paramsB = paramsA\<lparr>timeframeSeconds := 20000000\<rparr>"

definition worldB :: env where
  "worldB = worldA
     \<lparr>c_quote := (\<lambda>h. Inr \<lparr>quote_F = 9 * 10 ^ 17, quote_rS = 12 * 10 ^ 16, quote_rJ = 8 * 10 ^ 16\<rparr>)\<rparr>"

text \<open>The wallet holds 5 USDC and the protocol reverts every \<^verbatim>\<open>close\<close>.\<close>

definition worldRevert :: env where
  "worldRevert = quietWorld
     \<lparr>c_balanceOf := (\<lambda>h. Inr 5000000),
      c_closeLeg := (\<lambda>h. Inl ''execution reverted'')\<rparr>"








section \<open>Properties\<close>

subsection \<open>The loop-count formulas\<close>

lemma ln_100_over_ln_10_9:
  "43 < ln (100::real) / ln (10 / 9)" "ln (100::real) / ln (10 / 9) < 44"
proof -
  have pos: "0 < ln (10 / 9 :: real)" by simp
  have "(10 / 9 :: real) ^ 43 < 100" by (simp add: field_simps)
  then have "ln ((10 / 9 :: real) ^ 43) < ln 100" by (subst ln_less_cancel_iff) simp_all
  then have "43 * ln (10 / 9 :: real) < ln 100" by (simp add: ln_realpow)
  with pos show "43 < ln (100::real) / ln (10 / 9)" by (simp add: pos_less_divide_eq)
  have "(100::real) < (10 / 9) ^ 44" by (simp add: field_simps)
  then have "ln (100::real) < ln ((10 / 9) ^ 44)" by (subst ln_less_cancel_iff) simp_all
  then have "ln (100::real) < 44 * ln (10 / 9)" by (simp add: ln_realpow)
  with pos show "ln (100::real) / ln (10 / 9) < 44" by (simp add: pos_divide_less_eq)
qed

lemma loops_1301_at_9_10: "loops_1301 (9 / 10) = - 43"
proof -
  have a: "ln (1 / 100 :: real) = - ln 100" by (simp add: ln_div)
  have b: "ln (9 / 10 :: real) = - ln (10 / 9)" by (simp add: ln_div)
  have "- ln (1 / 100) / ln (9 / 10 :: real) = - (ln 100 / ln (10 / 9))"
    unfolding a b by simp
  then show ?thesis
    unfolding loops_1301_def using ln_100_over_ln_10_9 by (simp add: ceiling_eq_iff)
qed

lemma loops_new_at_9_10: "loops_new (1 / 100) (9 / 10) = 44"
proof -
  have a: "ln (1 / 100 :: real) = - ln 100" by (simp add: ln_div)
  have b: "ln (9 / 10 :: real) = - ln (10 / 9)" by (simp add: ln_div)
  have "ln (1 / 100) / ln (9 / 10 :: real) = ln 100 / ln (10 / 9)"
    unfolding a b by simp
  then show ?thesis
    unfolding loops_new_def using ln_100_over_ln_10_9 by (simp add: ceiling_eq_iff)
qed

text \<open>
  Whatever \<open>F\<close> in \<open>(0,1)\<close> the protocol quotes, line 1301 yields no positive count:
  \<open>-ln 0.01\<close> is positive and \<open>ln F\<close> is negative.
\<close>

lemma loops_1301_nonpositive:
  assumes "0 < F" "F < 1"
  shows "loops_1301 F \<le> 0"
proof -
  have neg: "ln F < 0" using assms by simp
  have pos: "0 < - ln (1 / 100 :: real)" by (simp add: ln_div)
  have "- ln (1 / 100) / ln F < 0" by (rule divide_pos_neg [OF pos neg])
  then have "- ln (1 / 100) / ln F \<le> real_of_int 0" by simp
  then show ?thesis unfolding loops_1301_def by (simp only: ceiling_le_iff)
qed

lemma loops_458_at_9_10: "loops_458 (9 / 10) = 10"
proof -
  have pos: "0 < ln (10 / 9 :: real)" by simp
  have a: "ln (1 / 10 :: real) = - ln 10" by (simp add: ln_div)
  have b: "ln (9 / 10 :: real) = - ln (10 / 9)" by (simp add: ln_div)
  have q: "ln (1 / 10) / ln (9 / 10 :: real) = ln 10 / ln (10 / 9)"
    unfolding a b by simp
  have "(10 / 9 :: real) ^ 10 < 10" by (simp add: field_simps)
  then have "ln ((10 / 9 :: real) ^ 10) < ln 10" by (subst ln_less_cancel_iff) simp_all
  then have "10 * ln (10 / 9 :: real) < ln 10" by (simp add: ln_realpow)
  with pos have "10 < ln (10::real) / ln (10 / 9)" by (simp add: pos_less_divide_eq)
  then have "10 < \<lceil>ln (10::real) / ln (10 / 9)\<rceil>" by (simp add: less_ceiling_iff)
  then show ?thesis unfolding loops_458_def q by simp
qed

text \<open>
  C9.  For every \<open>F\<close> and \<open>\<epsilon>\<close> in the open interval \<open>(0,1)\<close>, with
  \<open>loops = \<lceil>ln \<epsilon> / ln F\<rceil>\<close> (the formula of \<^verbatim>\<open>testLoopCount\<close>, whose threshold is 0.1),
  the achieved multiplier \<open>(1 - F^loops) / (1 - F)\<close> is at least \<open>(1 - \<epsilon>)\<close> times the
  maximum leverage \<open>1 / (1 - F)\<close>.
\<close>

theorem loops_new_reaches_threshold:
  assumes F: "0 < F" "F < 1" and e: "0 < eps" "eps < 1"
  shows "(1 - eps) * maxLeverageOf F \<le> actualMultiplier F (loops_new eps F)"
proof -
  have lnF: "ln F < 0" using F by simp
  have "ln eps / ln F \<le> real_of_int (loops_new eps F)"
    unfolding loops_new_def by (rule le_of_int_ceiling)
  then have "real_of_int (loops_new eps F) * ln F \<le> ln eps"
    using lnF by (simp add: neg_divide_le_eq)
  then have "exp (real_of_int (loops_new eps F) * ln F) \<le> exp (ln eps)" by simp
  then have "F powr real_of_int (loops_new eps F) \<le> eps"
    using F e by (simp add: powr_def)
  then have "1 - eps \<le> 1 - F powr real_of_int (loops_new eps F)" by simp
  then have "(1 - eps) / (1 - F) \<le> (1 - F powr real_of_int (loops_new eps F)) / (1 - F)"
    using F by (simp add: divide_right_mono)
  then show ?thesis unfolding actualMultiplier_def maxLeverageOf_def by simp
qed

theorem loops_new_reaches_threshold_witness:
  "(1 - 1 / 10) * maxLeverageOf (9 / 10) \<le> actualMultiplier (9 / 10) (loops_new (1 / 10) (9 / 10))"
  using loops_new_reaches_threshold [of "9 / 10" "1 / 10"] by simp

text \<open>
  C1.  The claim: for every \<open>F\<close> in \<open>(0,1)\<close> the loop count of
  \<^verbatim>\<open>calculateLeverageParams\<close> is \<open>\<lceil>ln 0.01 / ln F\<rceil>\<close>, at least 1.  The code at line 1301
  negates the numerator: with the quote \<open>F = 0.9\<close> it returns \<open>-43\<close> loops, where the
  claimed formula gives 44.
\<close>

theorem calculateLeverageParams_1279_loops_at_F_09:
  "fst (calculateLeverageParams_1279 worldA paramsA []) =
     Inr \<lparr>lp_F = 9 / 10, lp_R = 1 / 10, lp_loops = - 43, lp_maxLeverage = 10,
          lp_tokenId = ''yes-token''\<rparr>
   \<and> loops_new (1 / 100) (9 / 10) = 44"
  by (simp add: calculateLeverageParams_1279_def call_def worldA_def paramsA_def getTokenId_def
      quietWorld_def loops_1301_at_9_10 loops_new_at_9_10)

subsection \<open>The concrete worlds, field by field\<close>

lemma paramsA_fields:
  "marketConditionId paramsA = ''0x7cb031''" "longYes paramsA = True"
  "currentPrice paramsA = 4 / 10" "targetPrice paramsA = 44 / 100"
  "timeframeSeconds paramsA = 3600" "capitalUSDC paramsA = 1000"
  "maxSlippageBps paramsA = 100" "orderType paramsA = None"
  "maxRetries paramsA = None" "retryDelayMs paramsA = None"
  by (simp_all add: paramsA_def)

lemma paramsB_fields:
  "marketConditionId paramsB = ''0x7cb031''" "longYes paramsB = True"
  "currentPrice paramsB = 4 / 10" "targetPrice paramsB = 44 / 100"
  "timeframeSeconds paramsB = 20000000" "capitalUSDC paramsB = 1000"
  "maxSlippageBps paramsB = 100"
  by (simp_all add: paramsB_def paramsA_def)

lemma worldA_fields:
  "c_quote worldA = (\<lambda>h. Inr \<lparr>quote_F = 9 * 10 ^ 17, quote_rS = 6 * 10 ^ 16, quote_rJ = 4 * 10 ^ 16\<rparr>)"
  "c_legs worldA = (\<lambda>h. Inr \<lparr>leg_sets = 100, leg_F_e18 = 9 * 10 ^ 17, leg_rS_e18 = 6 * 10 ^ 16,
                          leg_rJ_e18 = 4 * 10 ^ 16, leg_term = 3600\<rparr>)"
  "c_getFeeData worldA = (\<lambda>h. Inr (Some (30 * 10 ^ 9)))"
  "c_yesPositionId worldA = (\<lambda>h. Inr ''yes-token'')"
  "c_createOrDeriveApiKey worldA = (\<lambda>h. Inr ())"
  "c_now worldA = (\<lambda>h. 0)"
  "toFixed worldA = (\<lambda>x d. ''#'')"
  "numToString worldA = (\<lambda>x. ''#'')"
  by (simp_all add: worldA_def quietWorld_def)

lemma worldB_fields:
  "c_quote worldB = (\<lambda>h. Inr \<lparr>quote_F = 9 * 10 ^ 17, quote_rS = 12 * 10 ^ 16, quote_rJ = 8 * 10 ^ 16\<rparr>)"
  "c_yesPositionId worldB = (\<lambda>h. Inr ''yes-token'')"
  "toFixed worldB = (\<lambda>x d. ''#'')"
  "numToString worldB = (\<lambda>x. ''#'')"
  by (simp_all add: worldB_def worldA_def quietWorld_def)

lemma validateInputs_paramsA: "validateInputs env paramsA = None"
  by (simp add: validateInputs_def paramsA_fields startsWith_def)

lemma calculateLeverageParams_439_worldA:
  "calculateLeverageParams_439 worldA paramsA h =
     (Inr \<lparr>lp_F = 9 / 10, lp_R = 1 / 10, lp_loops = 10, lp_maxLeverage = 10,
          lp_tokenId = ''yes-token''\<rparr>,
      h @ [Quote 1 3600 ''0x7cb031'' True, YesPositionId ''0x7cb031''])"
  by (simp add: calculateLeverageParams_439_def call_def worldA_fields paramsA_fields getTokenId_def
      validateRunway_def safeRunway_def runway_def YEAR_SECONDS_def loops_458_at_9_10)

lemma calculateLeverageParams_1279_worldA:
  "calculateLeverageParams_1279 worldA paramsA h =
     (Inr \<lparr>lp_F = 9 / 10, lp_R = 1 / 10, lp_loops = - 43, lp_maxLeverage = 10,
          lp_tokenId = ''yes-token''\<rparr>,
      h @ [Quote 1 3600 ''0x7cb031'' True, YesPositionId ''0x7cb031''])"
  by (simp add: calculateLeverageParams_1279_def call_def worldA_fields paramsA_fields getTokenId_def
      loops_1301_at_9_10)

subsection \<open>The runway check\<close>

lemma validateRunway_rejects:
  assumes "0 < F" "0 < R" "safeRunway F R \<le> termSeconds"
  shows "\<exists>m. validateRunway env F R termSeconds = Some (ValidationError m)"
  using assms by (simp add: validateRunway_def)

lemma validateRunway_accepts:
  assumes "termSeconds < safeRunway F R"
  shows "validateRunway env F R termSeconds = None"
  using assms by (simp add: validateRunway_def)

lemma validateRunway_zero_rate: "validateRunway env F 0 termSeconds = None"
  by (simp add: validateRunway_def)

text \<open>
  C3.  The claim: for every quoted \<open>F\<close> in \<open>(0,1)\<close> and rate \<open>R > 0\<close>, a call of
  \<^verbatim>\<open>openTargetPosition\<close> or \<^verbatim>\<open>simulatePosition\<close> with
  \<open>timeframeSeconds \<ge> safeRunway\<close> is rejected before any leg is opened.
  \<^verbatim>\<open>validateRunway\<close> (lines 417-434) does reject such a term, and
  \<^verbatim>\<open>calculateLeverageParams\<close> at lines 439-475 calls it; the
  \<^verbatim>\<open>calculateLeverageParams\<close> at lines 1279-1315 does not.  With \<open>F = 0.9\<close>,
  \<open>R = 0.2\<close> and a term of 20,000,000 s, past the safe runway of 16,644,000 s, the latter
  returns its parameters and \<^verbatim>\<open>simulatePosition\<close> (lines 1026-1080) returns a position,
  where the former throws the runway error.
\<close>

theorem calculateLeverageParams_1279_ignores_runway:
  "safeRunway (9 / 10) (2 / 10) = 16644000
   \<and> safeRunway (9 / 10) (2 / 10) \<le> timeframeSeconds paramsB
   \<and> fst (calculateLeverageParams_1279 worldB paramsB []) =
       Inr \<lparr>lp_F = 9 / 10, lp_R = 2 / 10, lp_loops = - 43, lp_maxLeverage = 10,
            lp_tokenId = ''yes-token''\<rparr>
   \<and> fst (calculateLeverageParams_439 worldB paramsB []) =
       Inl (ValidationError (''Term #h exceeds safe runway #h. ''
              @ ''Debt would exceed collateral value. ''
              @ ''Try shorter timeframe or wait for lower rates.''))"
  by (simp add: calculateLeverageParams_1279_def calculateLeverageParams_439_def call_def
      worldB_fields paramsB_fields getTokenId_def validateRunway_def safeRunway_def runway_def
      YEAR_SECONDS_def loops_1301_at_9_10)

subsection \<open>The simulated capital-carry loop\<close>

text \<open>
  The carry of lines 205-210 (and of the test): the total does not decrease, the
  remaining capital shrinks by the factor \<open>F\<close>, and the loop stops at the first pass
  that leaves less than one dollar.
\<close>

lemma simulateStep_205_monotone:
  assumes "0 < F" "F < 1" "0 < price" "0 < remaining"
  shows "totalTokens \<le> fst (simulateStep_205 F price (totalTokens, remaining))"
    and "snd (simulateStep_205 F price (totalTokens, remaining)) = remaining * F"
    and "snd (simulateStep_205 F price (totalTokens, remaining)) < remaining"
  using assms by (simp_all add: Let_def)

lemma simulateLoop_203_halts:
  assumes "int i < loops" "snd (simulateStep_205 F price acc) < 1"
  shows "simulateLoop_203 F price loops i acc = simulateStep_205 F price acc"
  using assms by (simp add: simulateLoop_203.simps Let_def)

text \<open>The carry of lines 1046-1052 multiplies the remaining capital by \<open>F / price\<close>.\<close>

lemma simulateStep_1046_remaining:
  "snd (simulateStep_1046 F price (totalTokens, remaining)) = remaining * F / price"
  by (simp add: Let_def)

text \<open>
  C4.  The claim: across the iterations of the simulated loop the total is
  non-decreasing, the remaining capital strictly decreases once positive, and the loop
  halts once it drops below one dollar.  The loop at lines 1044-1055 carries
  \<^verbatim>\<open>tokensThisLoop * F\<close> forward: with \<open>F = 0.9\<close>, a price of 0.40 and a capital of
  1000 the remaining capital grows from 1000 to 2250 in the first pass and to 11390.625
  after three, and the loop never meets its threshold.
\<close>

theorem simulateLoop_1044_remaining_grows:
  "simulateStep_1046 (9 / 10) (4 / 10) (0, 1000) = (2500, 2250)
   \<and> simulateLoop_1044 (9 / 10) (4 / 10) 3 0 (0, 1000) = (83125 / 4, 91125 / 8)"
  by (simp add: simulateLoop_1044.simps)

subsection \<open>The metrics\<close>

lemma calculatePositionMetrics_fields:
  assumes "calculatePositionMetrics env ids params totalTokens totalSlip lp h = (Inr pos, h')"
  shows "legIds pos = ids"
    and "effectiveLeverage pos = totalTokens / (capitalUSDC params * 10 ^ 6)"
    and "\<exists>g. gas (fees pos) = real (g * (length ids * 500000)) / 10 ^ 18"
  using assms
  by (auto simp: calculatePositionMetrics_def Let_def split: prod.splits sum.splits)

lemma readLegs_worldA: "\<exists>ls h'. readLegs worldA ids h = (Inr ls, h')"
proof (induction ids arbitrary: h)
  case Nil
  show ?case by simp
next
  case (Cons a ids)
  obtain ls h' where "readLegs worldA ids (h @ [Legs a]) = (Inr ls, h')"
    using Cons.IH by blast
  then show ?case by (simp add: call_def worldA_fields)
qed

lemma calculatePositionMetrics_worldA:
  "\<exists>pos h'. calculatePositionMetrics worldA ids params totalTokens totalSlip lp h = (Inr pos, h')"
proof -
  obtain ls h1 where "readLegs worldA ids h = (Inr ls, h1)" using readLegs_worldA by blast
  then show ?thesis
    by (simp add: calculatePositionMetrics_def call_def worldA_fields Let_def)
qed



subsection \<open>Scenario A\<close>

lemma simulateLoop_203_scenarioA:
  "simulateLoop_203 (9 / 10) (2 / 5) 10 0 (0, 1000) = (6513215599 / 400000, 3486784401 / 10000000)"
  by (simp add: simulateLoop_203.simps)

lemma simulatePosition_188_scenarioA:
  "map_sum id effectiveLeverage (fst (simulatePosition_188 worldA paramsA []))
     = Inr (6513215599 / 400000000)"
proof -
  let ?lp = "\<lparr>lp_F = 9 / 10, lp_R = 1 / 10, lp_loops = 10, lp_maxLeverage = 10,
          lp_tokenId = ''yes-token''\<rparr>"
  obtain pos h' where m: "calculatePositionMetrics worldA (dummyLegIds 10) paramsA
      (6513215599 / 400000 * 10 ^ 6) 0 ?lp
      [Quote 1 3600 ''0x7cb031'' True, YesPositionId ''0x7cb031''] = (Inr pos, h')"
    using calculatePositionMetrics_worldA by blast
  have "effectiveLeverage pos = 6513215599 / 400000000"
    using calculatePositionMetrics_fields(2) [OF m] by (simp add: paramsA_fields)
  moreover have "simulatePosition_188 worldA paramsA [] = (Inr pos, h')"
    using m by (simp add: simulatePosition_188_def validateInputs_paramsA catchSimulation_def
        simulateBody_195_def calculateLeverageParams_439_worldA paramsA_fields
        simulateLoop_203_scenarioA)
  ultimately show ?thesis by simp
qed

text \<open>
  C5, as amended.  With \<open>F = 0.9\<close>, a capital of 1000, a price of 0.40 and 10
  iterations, the loop that carries \<^verbatim>\<open>tokensThisLoop * F * price\<close> forward (lines 203-213,
  and the loop of \<^verbatim>\<open>testLoopLeverage\<close>) yields \<open>(1000 / 0.40) \<times> (1 - 0.9^10) / 0.1\<close> tokens,
  which is 16,283 to the nearest token, and \<open>total \<times> price / capital\<close> is 6.51 to two
  places; the \<open>effectiveLeverage\<close> of the simulated position is
  \<open>totalTokens / capitalUSDC\<close>, 16.28 to two places.
\<close>

theorem scenarioA_price_carry:
  "fst (simulateLoop_203 (9 / 10) (4 / 10) 10 0 (0, 1000))
     = (1000 / (4 / 10)) * actualMultiplier (9 / 10) 10
   \<and> 16283 < fst (simulateLoop_203 (9 / 10) (4 / 10) 10 0 (0, 1000))
   \<and> fst (simulateLoop_203 (9 / 10) (4 / 10) 10 0 (0, 1000)) < 16284
   \<and> 651 / 100 < fst (simulateLoop_203 (9 / 10) (4 / 10) 10 0 (0, 1000)) * (4 / 10) / 1000
   \<and> fst (simulateLoop_203 (9 / 10) (4 / 10) 10 0 (0, 1000)) * (4 / 10) / 1000 < 652 / 100
   \<and> map_sum id effectiveLeverage (fst (simulatePosition_188 worldA paramsA []))
       = Inr (fst (simulateLoop_203 (9 / 10) (4 / 10) 10 0 (0, 1000)) / 1000)
   \<and> 1628 / 100 < fst (simulateLoop_203 (9 / 10) (4 / 10) 10 0 (0, 1000)) / 1000
   \<and> fst (simulateLoop_203 (9 / 10) (4 / 10) 10 0 (0, 1000)) / 1000 < 1629 / 100"
  by (simp add: simulateLoop_203_scenarioA simulatePosition_188_scenarioA actualMultiplier_def
      power_divide)

text \<open>
  C5, the counterexample.  The loop at lines 1044-1055, run for 10 iterations on the
  same figures, totals 435716978125 / 65536 tokens, more than six million and not
  16,283; and the \<open>effectiveLeverage\<close> that \<^verbatim>\<open>calculatePositionMetrics\<close> reports for the
  16,283 tokens of the price-carrying loop is 16.28, not 6.51.
\<close>

theorem scenarioA_claimed_figures_counterexample:
  "fst (simulateLoop_1044 (9 / 10) (4 / 10) 10 0 (0, 1000)) = 435716978125 / 65536
   \<and> (6000000 :: real) < 435716978125 / 65536
   \<and> map_sum id effectiveLeverage (fst (simulatePosition_188 worldA paramsA []))
       = Inr (6513215599 / 400000000)
   \<and> (16 :: real) < 6513215599 / 400000000"
  by (simp add: simulateLoop_1044.simps simulatePosition_188_scenarioA)

subsection \<open>The simulated leg list\<close>

lemma dummyLegIds_length: "length (dummyLegIds loops) = nat loops"
  by (simp add: dummyLegIds_def)

text \<open>
  Where the count is not negative the simulated position has as many leg identifiers as
  the count, however early the capital loop stopped.
\<close>

lemma simulateBody_1036_legIds:
  assumes "simulateBody_1036 env params h = (Inr pos, h')"
  shows "\<exists>lp h1. calculateLeverageParams_1279 env params h = (Inr lp, h1)
           \<and> length (legIds pos) = nat (lp_loops lp)"
proof (cases "calculateLeverageParams_1279 env params h")
  case (Pair r h1)
  show ?thesis
  proof (cases r)
    case (Inl e)
    with Pair assms show ?thesis by (simp add: simulateBody_1036_def)
  next
    case (Inr lp)
    with Pair assms have "calculatePositionMetrics env (dummyLegIds (lp_loops lp)) params
        (fst (simulateLoop_1044 (lp_F lp) (currentPrice params) (lp_loops lp) 0
               (0, capitalUSDC params)) * 10 ^ 6) 0 lp h1 = (Inr pos, h')"
      by (simp add: simulateBody_1036_def)
    from calculatePositionMetrics_fields(1) [OF this] Pair Inr show ?thesis
      by (simp add: dummyLegIds_length)
  qed
qed

text \<open>
  C10.  The claim: the simulated position's \<open>legIds\<close> has exactly \<open>loops\<close> entries
  and its gas fee is \<open>loops \<times> 500000 \<times> gasPrice\<close>.  With the quote \<open>F = 0.9\<close> the
  count computed at line 1301 is \<open>-43\<close>, the array built at line 1058 is empty and the
  gas fee is 0.
\<close>

theorem simulatePosition_1026_legIds_at_F_09:
  "map_sum id (\<lambda>pos. (legIds pos, gas (fees pos)))
      (fst (simulatePosition_1026 worldA paramsA (False, []))) = Inr ([], 0)
   \<and> map_sum id lp_loops (fst (calculateLeverageParams_1279 worldA paramsA [CreateOrDeriveApiKey]))
       = Inr (- 43)"
  by (simp add: simulatePosition_1026_def validateInputs_paramsA setupPolymarket_def call_def
      worldA_fields catchSimulation_def simulateBody_1036_def calculateLeverageParams_1279_worldA
      simulateLoop_1044.simps dummyLegIds_def calculatePositionMetrics_def sumLegs_def
      paramsA_fields)

subsection \<open>Closing\<close>

lemma closeLoop_error_is_raw:
  assumes "closeLoop env ids acc h = (Inl e, h')"
  shows "\<exists>m. e = JsError m"
  using assms
  by (induction ids arbitrary: acc h)
     (auto simp: call_def split: prod.splits sum.splits)

lemma closePosition_error_is_raw:
  assumes "closePosition env ids h = (Inl e, h')"
  shows "\<not> isProtocolError e"
proof -
  from assms obtain h1 where "closeLoop env ids 0 h = (Inl e, h1)"
    by (auto simp: closePosition_def split: prod.splits sum.splits)
  then obtain m where "e = JsError m" using closeLoop_error_is_raw by blast
  then show ?thesis by simp
qed

text \<open>
  C8.  The claim: a failing close surfaces as a \<^verbatim>\<open>ProtocolError\<close> and the remaining
  legs are not attempted.  \<^verbatim>\<open>closePosition\<close> has no \<^verbatim>\<open>try\<close>: when the protocol
  reverts the close of leg 1 of the legs 1 and 2, the caller gets the library's own error,
  not a \<^verbatim>\<open>ProtocolError\<close>; leg 2 is indeed not attempted.
\<close>

theorem closePosition_rejects_with_raw_error:
  "closePosition worldRevert [1, 2] [] =
     (Inl (JsError ''execution reverted''), [BalanceOf, CloseLeg 1])"
  by (simp add: closePosition_def call_def worldRevert_def quietWorld_def)

subsection \<open>The order executor\<close>

















subsection \<open>The execution loop\<close>
































end
